theory Spec2Isabelle
  imports Complex_Main "HOL-Library.AList"
begin

section \<open>JavaScript values used by ConversationCost.tsx\<close>

text \<open>
  The component computes with JavaScript numbers. They are modelled as exact reals
  (rounding of IEEE doubles is not modelled), together with the one non-numeric result
  the code can produce: \<open>NaN\<close>, which arises when a price that is not a number is
  multiplied. Arithmetic and comparisons follow ECMAScript: \<open>NaN\<close> is absorbing for
  \<open>+\<close> and \<open>*\<close>, and every comparison with \<open>NaN\<close> is false.
\<close>

datatype number = Num real | NaN

fun num_add :: "number \<Rightarrow> number \<Rightarrow> number" where
  "num_add (Num a) (Num b) = Num (a + b)"
| "num_add _ _ = NaN"

fun num_mul :: "number \<Rightarrow> number \<Rightarrow> number" where
  "num_mul (Num a) (Num b) = Num (a * b)"
| "num_mul _ _ = NaN"

fun num_gt :: "number \<Rightarrow> number \<Rightarrow> bool" where
  "num_gt (Num a) (Num b) = (a > b)"
| "num_gt _ _ = False"

fun num_lt :: "number \<Rightarrow> number \<Rightarrow> bool" where
  "num_lt (Num a) (Num b) = (a < b)"
| "num_lt _ _ = False"

text \<open>
  An optional property of a message object: the property may be missing (\<open>Absent\<close>),
  present with the value \<open>null\<close> or \<open>undefined\<close> (\<open>Null\<close>), or present with a value.
  \<open>Absent\<close> and \<open>Null\<close> are both falsy; they differ under object spread, where a
  property that is present overrides whatever its value is.
\<close>

datatype 'a field = Absent | Null | Val 'a

text \<open>Truthiness of a string-valued property: a non-empty string.\<close>

fun truthy_string :: "string field \<Rightarrow> string option" where
  "truthy_string (Val s) = (if s = [] then None else Some s)"
| "truthy_string _ = None"

text \<open>Truthiness of an object-valued property: any object.\<close>

fun truthy_object :: "'a field \<Rightarrow> 'a option" where
  "truthy_object (Val x) = Some x"
| "truthy_object _ = None"

section \<open>Strings\<close>

text \<open>
  Strings are lists of characters and \<open>length\<close> is JavaScript's \<open>.length\<close>.
  \<open>toLowerCase\<close> maps the ASCII capitals to their small letters and leaves every other
  character alone; model identifiers are ASCII.
\<close>

definition lower_char :: "char \<Rightarrow> char" where
  "lower_char c =
     (case map_of (zip ''ABCDEFGHIJKLMNOPQRSTUVWXYZ'' ''abcdefghijklmnopqrstuvwxyz'') c of
        Some d \<Rightarrow> d
      | None \<Rightarrow> c)"

definition toLowerCase :: "string \<Rightarrow> string" where
  "toLowerCase s = map lower_char s"

fun startsWith :: "string \<Rightarrow> string \<Rightarrow> bool" where
  "startsWith s [] = True"
| "startsWith [] (c # t) = False"
| "startsWith (a # s) (c # t) = (a = c \<and> startsWith s t)"

text \<open>\<open>includes s t\<close> is \<open>s.includes(t)\<close>: \<open>t\<close> occurs in \<open>s\<close> as a contiguous run.\<close>

fun "includes" :: "string \<Rightarrow> string \<Rightarrow> bool" where
  "includes [] t = (t = [])"
| "includes (a # s) t = (startsWith (a # s) t \<or> includes s t)"

section \<open>The pricing table\<close>

text \<open>
  \<open>MODEL_PRICING\<close> (lines 10 to 44) is an object literal. Its own keys are listed in
  declaration order, which is the order \<open>Object.keys\<close> enumerates them in (none of the
  keys is an array index).
\<close>

definition MODEL_PRICING :: "(string \<times> real) list" where
  "MODEL_PRICING =
     [(''gpt-4o'', 10),
      (''gpt-4o-mini'', 375 / 1000),
      (''gpt-4-turbo'', 20),
      (''gpt-4'', 45),
      (''gpt-4-0613'', 45),
      (''gpt-4-0314'', 45),
      (''gpt-4-32k'', 90),
      (''gpt-3.5-turbo'', 1),
      (''gpt-3.5-turbo-16k'', 35 / 10),
      (''o1'', 375 / 10),
      (''o1-mini'', 75 / 10),
      (''o1-preview'', 375 / 10),
      (''claude-3-5-sonnet'', 9),
      (''claude-3-5-haiku'', 24 / 10),
      (''claude-3-opus'', 45),
      (''claude-3-sonnet'', 9),
      (''claude-3-haiku'', 75 / 100),
      (''claude-2.1'', 16),
      (''claude-2'', 16),
      (''claude-instant'', 8 / 10),
      (''gemini-1.5-pro'', 625 / 100),
      (''gemini-1.5-flash'', 375 / 1000),
      (''gemini-1.5-flash-8b'', 1875 / 10000),
      (''gemini-pro'', 1),
      (''gemini-2.0'', 375 / 1000),
      (''default'', 1)]"

definition Object_keys :: "(string \<times> real) list \<Rightarrow> string list" where
  "Object_keys obj = map fst obj"

text \<open>
  A property read \<open>MODEL_PRICING[k]\<close> does not stop at the object's own keys: an object
  literal inherits from \<open>Object.prototype\<close>, so the names below are found as well. Their
  values are functions (for \<open>__proto__\<close>, the prototype object itself): truthy, and not
  numbers.
\<close>

definition Object_prototype :: "string list" where
  "Object_prototype =
     [''constructor'', ''hasOwnProperty'', ''isPrototypeOf'', ''propertyIsEnumerable'',
      ''toLocaleString'', ''toString'', ''valueOf'', ''__proto__'',
      ''__defineGetter__'', ''__defineSetter__'', ''__lookupGetter__'', ''__lookupSetter__'']"

datatype property = Undefined | Own real | Inherited

definition get_property :: "(string \<times> real) list \<Rightarrow> string \<Rightarrow> property" where
  "get_property obj k =
     (case map_of obj k of
        Some r \<Rightarrow> Own r
      | None \<Rightarrow> if k \<in> set Object_prototype then Inherited else Undefined)"

fun truthy :: "property \<Rightarrow> bool" where
  "truthy Undefined = False"
| "truthy (Own r) = (r \<noteq> 0)"
| "truthy Inherited = True"

text \<open>The conversion applied to a property value when it is multiplied.\<close>

fun ToNumber :: "property \<Rightarrow> number" where
  "ToNumber Undefined = NaN"
| "ToNumber (Own r) = Num r"
| "ToNumber Inherited = NaN"

section \<open>Model price resolver\<close>

text \<open>\<open>estimateTokens\<close>, lines 47 to 52.\<close>

definition estimateTokens :: "string \<Rightarrow> nat" where
  "estimateTokens text = (if text = [] then 0 else nat \<lceil>real (length text) / 4\<rceil>)"

text \<open>The provider patterns of \<open>getBaseModel\<close>, lines 71 to 89.\<close>

definition providerPattern :: "string \<Rightarrow> string" where
  "providerPattern modelLower =
     (if includes modelLower ''gpt-4-32k'' then ''gpt-4-32k''
      else if includes modelLower ''gpt-4'' then ''gpt-4''
      else if includes modelLower ''gpt-3.5-turbo-16k'' then ''gpt-3.5-turbo-16k''
      else if includes modelLower ''gpt-3.5'' then ''gpt-3.5-turbo''
      else if includes modelLower ''claude-3-opus'' then ''claude-3-opus''
      else if includes modelLower ''claude-3-sonnet'' then ''claude-3-sonnet''
      else if includes modelLower ''claude-3-haiku'' then ''claude-3-haiku''
      else if includes modelLower ''claude-3-5'' then ''claude-3-5-sonnet''
      else if includes modelLower ''claude-2'' then ''claude-2''
      else if includes modelLower ''claude-instant'' then ''claude-instant''
      else if includes modelLower ''claude'' then ''claude-3-haiku''
      else if includes modelLower ''gemini-1.5-pro'' then ''gemini-1.5-pro''
      else if includes modelLower ''gemini-1.5-flash'' then ''gemini-1.5-flash''
      else if includes modelLower ''gemini'' then ''gemini-1.5-flash''
      else if includes modelLower ''o1-preview'' then ''o1-preview''
      else if includes modelLower ''o1-mini'' then ''o1-mini''
      else if includes modelLower ''o1'' then ''o1''
      else ''default'')"

text \<open>The scan over the table's keys, lines 64 to 68: the first key that matches.\<close>

definition keyMatches :: "string \<Rightarrow> string \<Rightarrow> bool" where
  "keyMatches modelLower key =
     (includes modelLower (toLowerCase key) \<or> includes (toLowerCase key) modelLower)"

definition scanKeys :: "string \<Rightarrow> string option" where
  "scanKeys modelLower = find (keyMatches modelLower) (Object_keys MODEL_PRICING)"

text \<open>
  \<open>getBaseModel\<close>, lines 55 to 90. The argument is \<open>string | null\<close>; \<open>!model\<close> holds for
  \<open>null\<close> and for the empty string.
\<close>

definition getBaseModel :: "string option \<Rightarrow> string" where
  "getBaseModel model =
     (case model of
        None \<Rightarrow> ''default''
      | Some m \<Rightarrow>
          if m = [] then ''default''
          else if truthy (get_property MODEL_PRICING m) then m
          else (case scanKeys (toLowerCase m) of
                  Some key \<Rightarrow> key
                | None \<Rightarrow> providerPattern (toLowerCase m)))"

text \<open>
  The price the aggregator uses for a model identifier, lines 202 and 203:
  \<open>MODEL_PRICING[getBaseModel(model)] || MODEL_PRICING.default\<close>.
\<close>

definition pricePerMillion :: "string option \<Rightarrow> property" where
  "pricePerMillion model =
     (let baseModel = getBaseModel model;
          p = get_property MODEL_PRICING baseModel
      in if truthy p then p else get_property MODEL_PRICING ''default'')"

section \<open>Messages\<close>

text \<open>
  Modelled from the spec: the declaration of \<open>TMessage\<close> lives in the package
  \<open>librechat-data-provider\<close>, outside this repository's sources. The record holds the
  attributes the component reads, with the optionality the data model gives them; token
  counts are non-negative integers. \<open>conversationId\<close> is a string or \<open>null\<close> (\<open>None\<close>).
\<close>

record usage_object =
  prompt_tokens :: "nat option"
  completion_tokens :: "nat option"

record tokens_object =
  prompt :: "nat option"
  input :: "nat option"
  completion :: "nat option"
  "output" :: "nat option"

record message =
  conversationId :: "string option"
  messageId :: string
  isCreatedByUser :: bool
  model :: "string field"
  tokenCount :: "nat field"
  usage :: "usage_object field"
  tokens :: "tokens_object field"
  "text" :: "string field"

text \<open>Truthiness of a number-valued property: a number other than 0.\<close>

fun truthy_number :: "nat field \<Rightarrow> nat option" where
  "truthy_number (Val n) = (if n = 0 then None else Some n)"
| "truthy_number _ = None"

text \<open>\<open>x || d\<close> for a sub-field \<open>x\<close> that may be missing.\<close>

fun or_else :: "nat option \<Rightarrow> nat \<Rightarrow> nat" where
  "or_else (Some n) d = (if n = 0 then d else n)"
| "or_else None d = d"

section \<open>Streaming merge\<close>

text \<open>
  \<open>===\<close> between a message's \<open>conversationId\<close> (a string or \<open>null\<close>) and the route
  parameter (a string or \<open>undefined\<close>): equal strings only.
\<close>

fun sameConversation :: "string option \<Rightarrow> string option \<Rightarrow> bool" where
  "sameConversation (Some a) (Some b) = (a = b)"
| "sameConversation _ _ = False"

text \<open>
  The choice among the three streaming slots, lines 102 to 107. For an empty slot
  \<open>latestMessage0?.conversationId\<close> is \<open>undefined\<close>, which equals the route parameter
  when that is \<open>undefined\<close> too; the slot returned is then the empty one.
\<close>

fun slotMatches :: "message option \<Rightarrow> string option \<Rightarrow> bool" where
  "slotMatches None cid = (cid = None)"
| "slotMatches (Some m) cid = sameConversation (conversationId m) cid"

definition latestMessage ::
  "message option \<Rightarrow> message option \<Rightarrow> message option \<Rightarrow> string option \<Rightarrow> message option" where
  "latestMessage latestMessage0 latestMessage1 latestMessage2 cid =
     (if slotMatches latestMessage0 cid then latestMessage0
      else if slotMatches latestMessage1 cid then latestMessage1
      else if slotMatches latestMessage2 cid then latestMessage2
      else None)"

text \<open>
  Object spread \<open>{ ...existing, ...latest }\<close>, line 147: every property present in
  \<open>latest\<close> replaces the one of \<open>existing\<close>; a property missing from \<open>latest\<close> is kept.
\<close>

fun spread :: "'a field \<Rightarrow> 'a field \<Rightarrow> 'a field" where
  "spread old Absent = old"
| "spread old new = new"

definition overlay :: "message \<Rightarrow> message \<Rightarrow> message" where
  "overlay existing latest =
     \<lparr>conversationId = conversationId latest,
      messageId = messageId latest,
      isCreatedByUser = isCreatedByUser latest,
      model = spread (model existing) (model latest),
      tokenCount = spread (tokenCount existing) (tokenCount latest),
      usage = spread (usage existing) (usage latest),
      tokens = spread (tokens existing) (tokens latest),
      text = spread (text existing) (text latest)\<rparr>"

fun findIndex :: "('a \<Rightarrow> bool) \<Rightarrow> 'a list \<Rightarrow> nat option" where
  "findIndex P [] = None"
| "findIndex P (x # xs) = (if P x then Some 0 else map_option Suc (findIndex P xs))"

text \<open>\<open>allMessages\<close>, lines 139 to 155.\<close>

definition allMessages :: "message list \<Rightarrow> message option \<Rightarrow> string option \<Rightarrow> message list" where
  "allMessages messages latest cid =
     (case latest of
        None \<Rightarrow> messages
      | Some lm \<Rightarrow>
          if sameConversation (conversationId lm) cid then
            (case findIndex (\<lambda>m. messageId m = messageId lm) messages of
               Some existingIndex \<Rightarrow>
                 messages[existingIndex := overlay (messages ! existingIndex) lm]
             | None \<Rightarrow>
                 if truthy_string (text lm) \<noteq> None then messages @ [lm] else messages)
          else messages)"

section \<open>Cost aggregation\<close>

text \<open>The token count of a message and whether it is an estimate, lines 170 to 190.\<close>

definition extractTokens :: "message \<Rightarrow> nat \<times> bool" where
  "extractTokens message =
     (case truthy_number (tokenCount message) of
        Some n \<Rightarrow> (n, False)
      | None \<Rightarrow>
     (case truthy_object (usage message) of
        Some u \<Rightarrow> (or_else (prompt_tokens u) 0 + or_else (completion_tokens u) 0, False)
      | None \<Rightarrow>
     (case truthy_object (tokens message) of
        Some t \<Rightarrow>
          (or_else (prompt t) (or_else (input t) 0)
             + or_else (completion t) (or_else (output t) 0), False)
      | None \<Rightarrow>
     (case truthy_string (text message) of
        Some s \<Rightarrow> (estimateTokens s, True)
      | None \<Rightarrow> (0, False)))))"

text \<open>
  Line 199: the message's own model, or else the model of the first message of the whole
  sequence that has one.
\<close>

definition messageModel :: "message list \<Rightarrow> message \<Rightarrow> string option" where
  "messageModel msgs message =
     (case truthy_string (model message) of
        Some s \<Rightarrow> Some s
      | None \<Rightarrow>
          (case find (\<lambda>m. truthy_string (model m) \<noteq> None) msgs of
             Some m \<Rightarrow> truthy_string (model m)
           | None \<Rightarrow> None))"

text \<open>Lines 202 to 207: the cost of \<open>count\<close> tokens under a model name.\<close>

definition messageCost :: "string \<Rightarrow> nat \<Rightarrow> bool \<Rightarrow> number" where
  "messageCost name count isEstimated =
     (let adjustedTokenCount = (if isEstimated then real count * (85 / 100) else real count)
      in num_mul (Num (adjustedTokenCount / 1000000)) (ToNumber (pricePerMillion (Some name))))"

text \<open>
  \<open>modelCosts\<close> is a \<open>Map\<close>: an association list in insertion order, where \<open>set\<close>
  replaces the value of a key already there and appends a new key at the end.
  \<open>modelCosts.get(model) || 0\<close> is 0 for a missing key and for a stored \<open>NaN\<close>.
\<close>

definition currentModelCost :: "(string \<times> number) list \<Rightarrow> string \<Rightarrow> number" where
  "currentModelCost modelCosts name =
     (case map_of modelCosts name of
        Some (Num c) \<Rightarrow> Num c
      | _ \<Rightarrow> Num 0)"

text \<open>
  The body of the loop over \<open>allMessages\<close>, lines 168 to 217, on the three accumulators
  \<open>(totalCost, totalTokens, modelCosts)\<close>.
\<close>

definition processMessage ::
  "message list \<Rightarrow> number \<times> nat \<times> (string \<times> number) list \<Rightarrow> message
     \<Rightarrow> number \<times> nat \<times> (string \<times> number) list" where
  "processMessage msgs state message =
     (case state of (cost, toks, modelCosts) \<Rightarrow>
      case extractTokens message of (count, isEstimated) \<Rightarrow>
        if count = 0 then state
        else
          (let effective = messageModel msgs message
           in if effective \<noteq> None \<or> isCreatedByUser message then
                (let name = (case effective of Some s \<Rightarrow> s | None \<Rightarrow> ''gpt-3.5-turbo'');
                     c = messageCost name count isEstimated
                 in (num_add cost c, toks + count,
                     if effective \<noteq> None
                     then AList.update name (num_add (currentModelCost modelCosts name) c)
                            modelCosts
                     else modelCosts))
              else (cost, toks + count, modelCosts)))"

text \<open>The choice of the primary model, lines 220 to 227.\<close>

definition selectPrimary :: "string \<times> number \<Rightarrow> string \<times> number \<Rightarrow> string \<times> number" where
  "selectPrimary best entry = (if num_gt (snd entry) (snd best) then entry else best)"

definition findPrimaryModel :: "(string \<times> number) list \<Rightarrow> string" where
  "findPrimaryModel modelCosts = fst (foldl selectPrimary (''Unknown'', Num 0) modelCosts)"

section \<open>Display formatting\<close>

fun digits :: "nat \<Rightarrow> string" where
  "digits n =
     (if n < 10 then [''0123456789'' ! n]
      else digits (n div 10) @ [''0123456789'' ! (n mod 10)])"

declare digits.simps [simp del]

text \<open>
  \<open>Number.prototype.toFixed\<close> for a finite number: the integer \<open>n\<close> nearest to
  \<open>x * 10^f\<close> (the larger of two equally near), written with \<open>f\<close> digits after the
  point. From \<open>10^21\<close> on JavaScript prints the double in exponent notation instead,
  which exact reals cannot express: \<open>None\<close>.
\<close>

definition toFixed :: "real \<Rightarrow> nat \<Rightarrow> string option" where
  "toFixed x f =
     (if \<bar>x\<bar> \<ge> 10 ^ 21 then None
      else
        let m = digits (nat \<lfloor>\<bar>x\<bar> * 10 ^ f + 1 / 2\<rfloor>);
            z = replicate (f + 1 - length m) CHR ''0'' @ m;
            k = length z;
            s = (if f = 0 then m else take (k - f) z @ ''.'' @ drop (k - f) z)
        in Some ((if x < 0 then ''-'' else []) @ s))"

fun number_toFixed :: "number \<Rightarrow> nat \<Rightarrow> string option" where
  "number_toFixed NaN f = Some ''NaN''"
| "number_toFixed (Num x) f = toFixed x f"

text \<open>\<open>formatCost\<close>, lines 230 to 236.\<close>

definition formatCost :: "number \<Rightarrow> string option" where
  "formatCost cost =
     (if cost = Num 0 then Some ''$0.00''
      else if num_lt cost (Num (1 / 1000)) then Some ''<$0.001''
      else if num_lt cost (Num (1 / 100)) then map_option ((@) ''$'') (number_toFixed cost 4)
      else if num_lt cost (Num 1) then map_option ((@) ''$'') (number_toFixed cost 3)
      else map_option ((@) ''$'') (number_toFixed cost 2))"

text \<open>
  \<open>costData\<close>, lines 158 to 245. \<open>now\<close> is the reading of the clock that
  \<open>new Date()\<close> takes.
\<close>

record summary =
  totalCost :: "string option"
  totalCostRaw :: number
  primaryModel :: string
  totalTokens :: nat
  lastUpdated :: nat

definition aggregateLoop :: "message list \<Rightarrow> number \<times> nat \<times> (string \<times> number) list" where
  "aggregateLoop msgs = foldl (processMessage msgs) (Num 0, 0, []) msgs"

definition costData :: "nat \<Rightarrow> message list \<Rightarrow> summary option" where
  "costData now msgs =
     (if msgs = [] then None
      else
        (case aggregateLoop msgs of (cost, toks, modelCosts) \<Rightarrow>
           Some \<lparr>totalCost = formatCost cost,
                 totalCostRaw = cost,
                 primaryModel = findPrimaryModel modelCosts,
                 totalTokens = toks,
                 lastUpdated = now\<rparr>))"


section \<open>An invariant of the aggregation loop\<close>

text \<open>
  The per-model mapping has one entry per key, and every accrued cost is a positive number.
\<close>

definition positiveCosts :: "(string \<times> number) list \<Rightarrow> bool" where
  "positiveCosts modelCosts \<longleftrightarrow>
     distinct (map fst modelCosts) \<and> (\<forall>e\<in>set modelCosts. \<exists>c>0. snd e = Num c)"

section \<open>Properties of the model price resolver\<close>

text \<open>\<open>includes\<close> is the substring test.\<close>

lemma startsWith_iff: "startsWith s t \<longleftrightarrow> (\<exists>q. s = t @ q)"
  by (induction s t rule: startsWith.induct) auto

lemma includes_iff: "includes s t \<longleftrightarrow> (\<exists>p q. s = p @ t @ q)"
proof (induction s)
  case Nil
  then show ?case by simp
next
  case (Cons a s)
  show ?case
  proof
    assume "includes (a # s) t"
    then consider "startsWith (a # s) t" | "includes s t" by auto
    then show "\<exists>p q. a # s = p @ t @ q"
    proof cases
      case 1
      then obtain q where "a # s = t @ q" using startsWith_iff by blast
      then have "a # s = [] @ t @ q" by simp
      then show ?thesis by blast
    next
      case 2
      then obtain p q where "s = p @ t @ q" using Cons.IH by blast
      then have "a # s = (a # p) @ t @ q" by simp
      then show ?thesis by blast
    qed
  next
    assume "\<exists>p q. a # s = p @ t @ q"
    then obtain p q where pq: "a # s = p @ t @ q" by blast
    show "includes (a # s) t"
    proof (cases p)
      case Nil
      then have "startsWith (a # s) t" using pq startsWith_iff by auto
      then show ?thesis by simp
    next
      case (Cons b p')
      then have "s = p' @ t @ q" using pq by simp
      then have "includes s t" using Cons.IH by blast
      then show ?thesis by simp
    qed
  qed
qed

lemma Object_keys_MODEL_PRICING:
  "Object_keys MODEL_PRICING =
     [''gpt-4o'', ''gpt-4o-mini'', ''gpt-4-turbo'', ''gpt-4'', ''gpt-4-0613'', ''gpt-4-0314'',
      ''gpt-4-32k'', ''gpt-3.5-turbo'', ''gpt-3.5-turbo-16k'', ''o1'', ''o1-mini'',
      ''o1-preview'', ''claude-3-5-sonnet'', ''claude-3-5-haiku'', ''claude-3-opus'',
      ''claude-3-sonnet'', ''claude-3-haiku'', ''claude-2.1'', ''claude-2'',
      ''claude-instant'', ''gemini-1.5-pro'', ''gemini-1.5-flash'', ''gemini-1.5-flash-8b'',
      ''gemini-pro'', ''gemini-2.0'', ''default'']"
  by (simp add: Object_keys_def MODEL_PRICING_def)

lemma providerPattern_key: "providerPattern m \<in> set (Object_keys MODEL_PRICING)"
  unfolding providerPattern_def Object_keys_MODEL_PRICING by simp

lemma scanKeys_key: "scanKeys m = Some key \<Longrightarrow> key \<in> set (Object_keys MODEL_PRICING)"
  unfolding scanKeys_def by (auto simp: find_Some_iff)

lemma own_key_iff: "map_of MODEL_PRICING k \<noteq> None \<longleftrightarrow> k \<in> set (Object_keys MODEL_PRICING)"
  by (simp add: Object_keys_def map_of_eq_None_iff)

lemma prices_nonzero: "map_of MODEL_PRICING k = Some r \<Longrightarrow> r > 0"
proof -
  assume "map_of MODEL_PRICING k = Some r"
  then have "(k, r) \<in> set MODEL_PRICING" by (rule map_of_SomeD)
  then show ?thesis unfolding MODEL_PRICING_def by auto
qed

lemma get_property_own:
  "k \<in> set (Object_keys MODEL_PRICING) \<Longrightarrow> \<exists>r>0. get_property MODEL_PRICING k = Own r"
  using own_key_iff prices_nonzero by (fastforce simp: get_property_def split: option.splits)

text \<open>
  Outside the names inherited from \<open>Object.prototype\<close>, \<open>getBaseModel\<close> returns a key
  of the table.
\<close>

lemma getBaseModel_key:
  assumes "m \<notin> set Object_prototype"
  shows "getBaseModel (Some m) \<in> set (Object_keys MODEL_PRICING)"
proof (cases "m = []")
  case True
  then show ?thesis by (simp add: getBaseModel_def Object_keys_MODEL_PRICING)
next
  case False
  show ?thesis
  proof (cases "truthy (get_property MODEL_PRICING m)")
    case True
    then have "map_of MODEL_PRICING m \<noteq> None"
      using assms by (auto simp: get_property_def split: option.splits)
    then show ?thesis using True False own_key_iff by (simp add: getBaseModel_def)
  next
    case nt: False
    then show ?thesis using False scanKeys_key providerPattern_key
      by (auto simp: getBaseModel_def split: option.splits)
  qed
qed

text \<open>
  Whatever \<open>getBaseModel\<close> returns, the lookup of line 203 is truthy: the fallback
  \<open>|| MODEL_PRICING.default\<close> is never taken.
\<close>

lemma getBaseModel_truthy: "truthy (get_property MODEL_PRICING (getBaseModel mo))"
proof (cases mo)
  case None
  then show ?thesis by (simp add: getBaseModel_def get_property_def MODEL_PRICING_def)
next
  case (Some m)
  show ?thesis
  proof (cases "m \<noteq> [] \<and> truthy (get_property MODEL_PRICING m)")
    case True
    then show ?thesis using Some by (simp add: getBaseModel_def)
  next
    case False
    then have "getBaseModel (Some m) \<in> set (Object_keys MODEL_PRICING)"
      using scanKeys_key providerPattern_key
      by (auto simp: getBaseModel_def Object_keys_MODEL_PRICING split: option.splits)
    then show ?thesis using Some get_property_own by fastforce
  qed
qed

text \<open>
  The scan returns the first key, in enumeration order, that matches in either direction.
\<close>

lemma scanKeys_first_match:
  "scanKeys m = Some key \<longleftrightarrow>
     (\<exists>i < length (Object_keys MODEL_PRICING).
        Object_keys MODEL_PRICING ! i = key \<and> keyMatches m key
        \<and> (\<forall>j < i. \<not> keyMatches m (Object_keys MODEL_PRICING ! j)))"
  unfolding scanKeys_def find_Some_iff by blast

section \<open>Token count extraction\<close>

lemma truthy_number_None: "truthy_number f = None \<longleftrightarrow> f = Absent \<or> f = Null \<or> f = Val 0"
  by (cases f) auto

lemma truthy_object_None: "truthy_object f = None \<longleftrightarrow> f = Absent \<or> f = Null"
  by (cases f) auto

lemma truthy_string_None: "truthy_string f = None \<longleftrightarrow> f = Absent \<or> f = Null \<or> f = Val []"
  by (cases f) auto

lemma estimateTokens_div: "estimateTokens t = (length t + 3) div 4"
proof (cases "t = []")
  case True
  then show ?thesis by (simp add: estimateTokens_def)
next
  case False
  have "\<lceil>real (length t) / 4\<rceil> = \<lceil>real_of_int (int (length t)) / real_of_int 4\<rceil>" by simp
  also have "\<dots> = - ((- int (length t)) div 4)"
    by (simp only: ceiling_divide_eq_div)
  also have "\<dots> = int ((length t + 3) div 4)" by linarith
  finally show ?thesis using False by (simp add: estimateTokens_def)
qed

text \<open>
  C1, as stated, fails: a \<open>tokenCount\<close> that is the number 0 is falsy, so the first
  branch is not taken. With a text of four characters beside it the count is the
  estimate 1, flagged as estimated, and not the \<open>tokenCount\<close> 0.
\<close>

theorem extractTokens_zero_tokenCount:
  "extractTokens \<lparr>conversationId = Some ''c'', messageId = ''m1'', isCreatedByUser = False,
       model = Absent, tokenCount = Val 0, usage = Absent, tokens = Absent,
       text = Val ''abcd''\<rparr> = (1, True)"
  by (simp add: extractTokens_def estimateTokens_def)

text \<open>
  C1, amended: a \<open>tokenCount\<close> that is a number other than 0 is the extracted count, not
  estimated, whatever \<open>usage\<close>, \<open>tokens\<close> and \<open>text\<close> hold. With \<open>tokenCount\<close> missing
  or 0, a \<open>usage\<close> object gives the sum of its two sub-fields (a missing one counting 0),
  and failing that a \<open>tokens\<close> object gives prompt-or-input plus completion-or-output.
  The count is an estimate only when \<open>tokenCount\<close> is missing or 0 and \<open>usage\<close> and
  \<open>tokens\<close> are absent, and then, for a non-empty text, it is the ceiling of a quarter of
  the text's length. With none of the four present the result is 0, not estimated.
\<close>

theorem extractTokens_precedence:
  "(tokenCount m = Val n \<and> n \<noteq> 0 \<longrightarrow> extractTokens m = (n, False))
   \<and> (truthy_number (tokenCount m) = None \<and> truthy_object (usage m) = None
        \<and> truthy_object (tokens m) = None \<and> text m = Val t \<and> t \<noteq> []
      \<longrightarrow> extractTokens m = (nat \<lceil>real (length t) / 4\<rceil>, True))
   \<and> (truthy_number (tokenCount m) = None \<and> usage m = Val u
      \<longrightarrow> extractTokens m =
            (or_else (prompt_tokens u) 0 + or_else (completion_tokens u) 0, False))
   \<and> (truthy_number (tokenCount m) = None \<and> truthy_object (usage m) = None
        \<and> tokens m = Val k
      \<longrightarrow> extractTokens m =
            (or_else (prompt k) (or_else (input k) 0)
               + or_else (completion k) (or_else (output k) 0), False))
   \<and> (snd (extractTokens m)
      \<longrightarrow> truthy_number (tokenCount m) = None \<and> truthy_object (usage m) = None
          \<and> truthy_object (tokens m) = None \<and> truthy_string (text m) \<noteq> None)
   \<and> (truthy_number (tokenCount m) = None \<and> truthy_object (usage m) = None
        \<and> truthy_object (tokens m) = None \<and> truthy_string (text m) = None
      \<longrightarrow> extractTokens m = (0, False))"
  by (auto simp: extractTokens_def estimateTokens_def split: option.splits)

theorem extractTokens_precedence_witness:
  "extractTokens \<lparr>conversationId = Some ''c'', messageId = ''m1'', isCreatedByUser = False,
       model = Absent, tokenCount = Val 7,
       usage = Val \<lparr>prompt_tokens = Some 3, completion_tokens = Some 2\<rparr>,
       tokens = Val \<lparr>prompt = Some 1, input = None, completion = None, output = Some 1\<rparr>,
       text = Val ''abcdefgh''\<rparr> = (7, False)
   \<and> extractTokens \<lparr>conversationId = Some ''c'', messageId = ''m2'', isCreatedByUser = False,
       model = Absent, tokenCount = Absent, usage = Null, tokens = Absent,
       text = Val ''abcde''\<rparr> = (2, True)
   \<and> extractTokens \<lparr>conversationId = Some ''c'', messageId = ''m3'', isCreatedByUser = False,
       model = Absent, tokenCount = Absent, usage = Absent, tokens = Absent,
       text = Absent\<rparr> = (0, False)"
  using extractTokens_precedence [where m = "\<lparr>conversationId = Some ''c'', messageId = ''m1'', isCreatedByUser = False,
       model = Absent, tokenCount = Val 7,
       usage = Val \<lparr>prompt_tokens = Some 3, completion_tokens = Some 2\<rparr>,
       tokens = Val \<lparr>prompt = Some 1, input = None, completion = None, output = Some 1\<rparr>,
       text = Val ''abcdefgh''\<rparr>" and n = 7]
    extractTokens_precedence [where m = "\<lparr>conversationId = Some ''c'', messageId = ''m2'', isCreatedByUser = False,
       model = Absent, tokenCount = Absent, usage = Null, tokens = Absent,
       text = Val ''abcde''\<rparr>" and t = "''abcde''"]
    extractTokens_precedence [where m = "\<lparr>conversationId = Some ''c'', messageId = ''m3'', isCreatedByUser = False,
       model = Absent, tokenCount = Absent, usage = Absent, tokens = Absent,
       text = Absent\<rparr>"]
  by simp

section \<open>Aggregation\<close>

lemma price_default_model: "pricePerMillion (Some ''gpt-3.5-turbo'') = Own 1"
  by (simp add: pricePerMillion_def getBaseModel_def get_property_def MODEL_PRICING_def)

lemma price_gpt4o: "pricePerMillion (Some ''gpt-4o'') = Own 10"
  by (simp add: pricePerMillion_def getBaseModel_def get_property_def MODEL_PRICING_def)

lemma aggregateLoop_single: "aggregateLoop [m] = processMessage [m] (Num 0, 0, []) m"
  by (simp add: aggregateLoop_def)

lemma messageModel_None:
  "messageModel msgs m = None \<longleftrightarrow>
     truthy_string (model m) = None \<and> (\<forall>x\<in>set msgs. truthy_string (model x) = None)"
proof (cases "truthy_string (model m)")
  case (Some s)
  then show ?thesis by (simp add: messageModel_def)
next
  case None
  show ?thesis
  proof (cases "find (\<lambda>x. truthy_string (model x) \<noteq> None) msgs")
    case n: None
    then have "\<forall>x\<in>set msgs. truthy_string (model x) = None"
      by (simp add: find_None_iff)
    moreover have "messageModel msgs m = None"
      using None n by (simp add: messageModel_def)
    ultimately show ?thesis using None by simp
  next
    case (Some f)
    then have "truthy_string (model f) \<noteq> None \<and> f \<in> set msgs"
      by (auto simp: find_Some_iff)
    then show ?thesis using None Some by (auto simp: messageModel_def)
  qed
qed

lemma messageModel_own: "truthy_string (model m) = Some s \<Longrightarrow> messageModel msgs m = Some s"
  by (simp add: messageModel_def)

lemma messageModel_fallback:
  assumes "truthy_string (model m) = None" and "msgs = pre @ f # post"
    and "\<forall>x\<in>set pre. truthy_string (model x) = None" and "truthy_string (model f) = Some s"
  shows "messageModel msgs m = Some s"
proof -
  have "find (\<lambda>x. truthy_string (model x) \<noteq> None) msgs = Some f"
    using assms(2,3,4) by (induction pre arbitrary: msgs) auto
  then show ?thesis using assms(1,4) by (simp add: messageModel_def)
qed

text \<open>
  C2, as stated, fails: a user message without a model of its own, in a sequence whose
  first message carries the model \<open>gpt-4o\<close>, is costed under that model, and its cost is
  added to the \<open>gpt-4o\<close> bucket, which goes from 0.01 to 0.02.
\<close>

theorem fallback_model_updates_bucket:
  "processMessage
     [\<lparr>conversationId = Some ''c'', messageId = ''a1'', isCreatedByUser = False,
        model = Val ''gpt-4o'', tokenCount = Val 1000, usage = Absent, tokens = Absent,
        text = Absent\<rparr>,
      \<lparr>conversationId = Some ''c'', messageId = ''u1'', isCreatedByUser = True,
        model = Absent, tokenCount = Val 1000, usage = Absent, tokens = Absent,
        text = Absent\<rparr>]
     (Num (1 / 100), 1000, [(''gpt-4o'', Num (1 / 100))])
     \<lparr>conversationId = Some ''c'', messageId = ''u1'', isCreatedByUser = True,
        model = Absent, tokenCount = Val 1000, usage = Absent, tokens = Absent,
        text = Absent\<rparr>
   = (Num (1 / 50), 2000, [(''gpt-4o'', Num (1 / 50))])"
  by (simp add: processMessage_def extractTokens_def messageModel_def messageCost_def
      price_gpt4o currentModelCost_def Let_def)

text \<open>
  C2, amended: the per-model mapping is keyed by the effective model of a message, which
  is the message's own model or, when it has none, the model of the first message of the
  sequence that has one. A message with a non-zero token count and an effective model
  adds its cost to that model's bucket. The mapping is left as it is by a message with no
  tokens and by a message with no effective model, that is, when neither the message nor
  any message of the sequence has a model (the case a user message is costed at the
  \<open>gpt-3.5-turbo\<close> default).
\<close>

theorem modelCosts_keyed_by_effective_model:
  "(fst (extractTokens m) = 0 \<or> messageModel msgs m = None
      \<longrightarrow> snd (snd (processMessage msgs (cost, toks, modelCosts) m)) = modelCosts)
   \<and> (fst (extractTokens m) \<noteq> 0 \<and> messageModel msgs m = Some name
      \<longrightarrow> snd (snd (processMessage msgs (cost, toks, modelCosts) m)) =
            AList.update name
              (num_add (currentModelCost modelCosts name)
                 (messageCost name (fst (extractTokens m)) (snd (extractTokens m))))
              modelCosts)
   \<and> (truthy_string (model m) = Some name \<longrightarrow> messageModel msgs m = Some name)
   \<and> (truthy_string (model m) = None \<and> msgs = pre @ f # post
        \<and> (\<forall>x\<in>set pre. truthy_string (model x) = None) \<and> truthy_string (model f) = Some name
      \<longrightarrow> messageModel msgs m = Some name)
   \<and> (messageModel msgs m = None \<longleftrightarrow>
        truthy_string (model m) = None \<and> (\<forall>x\<in>set msgs. truthy_string (model x) = None))"
proof -
  have a: "snd (snd (processMessage msgs (cost, toks, modelCosts) m)) = modelCosts"
    if "fst (extractTokens m) = 0 \<or> messageModel msgs m = None"
    using that by (auto simp: processMessage_def Let_def split: prod.splits)
  have b: "snd (snd (processMessage msgs (cost, toks, modelCosts) m)) =
            AList.update name
              (num_add (currentModelCost modelCosts name)
                 (messageCost name (fst (extractTokens m)) (snd (extractTokens m))))
              modelCosts"
    if "fst (extractTokens m) \<noteq> 0 \<and> messageModel msgs m = Some name"
    using that by (auto simp: processMessage_def Let_def split: prod.splits)
  show ?thesis
    using a b messageModel_own messageModel_fallback messageModel_None by blast
qed

theorem modelCosts_keyed_by_effective_model_witness:
  "snd (snd (processMessage
     [\<lparr>conversationId = Some ''c'', messageId = ''u1'', isCreatedByUser = True,
        model = Absent, tokenCount = Val 1000, usage = Absent, tokens = Absent,
        text = Absent\<rparr>]
     (Num 0, 0, [])
     \<lparr>conversationId = Some ''c'', messageId = ''u1'', isCreatedByUser = True,
        model = Absent, tokenCount = Val 1000, usage = Absent, tokens = Absent,
        text = Absent\<rparr>)) = []
   \<and> snd (snd (processMessage
     [\<lparr>conversationId = Some ''c'', messageId = ''a1'', isCreatedByUser = False,
        model = Val ''gpt-4o'', tokenCount = Val 1000, usage = Absent, tokens = Absent,
        text = Absent\<rparr>]
     (Num 0, 0, [])
     \<lparr>conversationId = Some ''c'', messageId = ''a1'', isCreatedByUser = False,
        model = Val ''gpt-4o'', tokenCount = Val 1000, usage = Absent, tokens = Absent,
        text = Absent\<rparr>)) = [(''gpt-4o'', Num (1 / 100))]"
proof -
  let ?u = "\<lparr>conversationId = Some ''c'', messageId = ''u1'', isCreatedByUser = True,
        model = Absent, tokenCount = Val 1000, usage = Absent, tokens = Absent,
        text = Absent\<rparr>"
  let ?a = "\<lparr>conversationId = Some ''c'', messageId = ''a1'', isCreatedByUser = False,
        model = Val ''gpt-4o'', tokenCount = Val 1000, usage = Absent, tokens = Absent,
        text = Absent\<rparr>"
  have u: "messageModel [?u] ?u = None"
    using modelCosts_keyed_by_effective_model
      [where m = "?u" and msgs = "[?u]" and cost = "Num 0" and toks = 0 and modelCosts = "[]"]
    by simp
  have "snd (snd (processMessage [?u] (Num 0, 0, []) ?u)) = []"
    using modelCosts_keyed_by_effective_model
      [where m = "?u" and msgs = "[?u]" and cost = "Num 0" and toks = 0 and modelCosts = "[]"] u
    by simp
  moreover have a: "messageModel [?a] ?a = Some ''gpt-4o''"
    using modelCosts_keyed_by_effective_model [where m = "?a" and msgs = "[?a]" and name = "''gpt-4o''"] by simp
  moreover have "fst (extractTokens ?a) \<noteq> 0" "extractTokens ?a = (1000, False)"
    by (simp_all add: extractTokens_def)
  ultimately show ?thesis
    using modelCosts_keyed_by_effective_model [where m = "?a" and msgs = "[?a]" and name = "''gpt-4o''" and cost = "Num 0"
        and toks = 0 and modelCosts = "[]"]
    by (simp add: currentModelCost_def messageCost_def price_gpt4o)
qed

text \<open>
  C3: a single user-authored message whose only content is a text of 40 characters, with
  no model, gives \<open>totalTokens = 10\<close> and a total cost of \<open>0.85 * 10 / 1000000\<close> times
  the rate of \<open>gpt-3.5-turbo\<close>, which is 1. The discount enters the cost only; the token
  total is the full 10. No per-model bucket is written.
\<close>

theorem single_estimated_user_message:
  assumes "isCreatedByUser m" and "truthy_string (model m) = None"
    and "truthy_number (tokenCount m) = None" and "truthy_object (usage m) = None"
    and "truthy_object (tokens m) = None" and "text m = Val t" and "length t = 40"
  shows "aggregateLoop [m] = (Num (85 / 100 * 10 / 1000000 * 1), 10, [])
    \<and> costData now [m] =
        Some \<lparr>totalCost = Some ''<$0.001'', totalCostRaw = Num (85 / 100 * 10 / 1000000 * 1),
              primaryModel = ''Unknown'', totalTokens = 10, lastUpdated = now\<rparr>
    \<and> get_property MODEL_PRICING ''gpt-3.5-turbo'' = Own 1"
proof -
  have t: "t \<noteq> []" using assms(7) by auto
  have ex: "extractTokens m = (10, True)"
    using assms t by (simp add: extractTokens_def estimateTokens_def)
  have mm: "messageModel [m] m = None"
    using assms(2) by (simp add: messageModel_def)
  have mc: "messageCost ''gpt-3.5-turbo'' 10 True = Num (85 / 100 * 10 / 1000000 * 1)"
    by (simp add: messageCost_def price_default_model)
  have loop: "aggregateLoop [m] = (Num (85 / 100 * 10 / 1000000 * 1), 10, [])"
    unfolding aggregateLoop_single processMessage_def
    using ex mm mc assms(1) by simp
  have fc: "formatCost (Num (85 / 100 * 10 / 1000000 * 1)) = Some ''<$0.001''"
    by (simp add: formatCost_def)
  have "costData now [m] =
        Some \<lparr>totalCost = Some ''<$0.001'', totalCostRaw = Num (85 / 100 * 10 / 1000000 * 1),
              primaryModel = ''Unknown'', totalTokens = 10, lastUpdated = now\<rparr>"
    unfolding costData_def using loop fc by (simp add: findPrimaryModel_def)
  moreover have "get_property MODEL_PRICING ''gpt-3.5-turbo'' = Own 1"
    by (simp add: get_property_def MODEL_PRICING_def)
  ultimately show ?thesis using loop by simp
qed

theorem single_estimated_user_message_witness:
  "length ''The quick brown fox jumps over the lazy.'' = 40 \<and>
   costData 7 [\<lparr>conversationId = Some ''c'', messageId = ''m1'', isCreatedByUser = True,
       model = Absent, tokenCount = Absent, usage = Absent, tokens = Absent,
       text = Val ''The quick brown fox jumps over the lazy.''\<rparr>] =
        Some \<lparr>totalCost = Some ''<$0.001'', totalCostRaw = Num (17 / 2000000),
              primaryModel = ''Unknown'', totalTokens = 10, lastUpdated = 7\<rparr>"
  using single_estimated_user_message [of "\<lparr>conversationId = Some ''c'', messageId = ''m1'', isCreatedByUser = True,
       model = Absent, tokenCount = Absent, usage = Absent, tokens = Absent,
       text = Val ''The quick brown fox jumps over the lazy.''\<rparr>"
       "''The quick brown fox jumps over the lazy.''" 7]
  by simp

section \<open>Formatting\<close>




section \<open>The resolver on particular identifiers\<close>

text \<open>
  C5: \<open>getBaseModel\<close> answers \<open>default\<close> for \<open>null\<close> and for the empty string, in its
  first branch, before the table is consulted; the price resolved for both is the
  table's default rate, 1.0.
\<close>

theorem resolvePrice_null_and_empty:
  "getBaseModel None = ''default'' \<and> getBaseModel (Some []) = ''default''
   \<and> pricePerMillion None = Own 1 \<and> pricePerMillion (Some []) = Own 1
   \<and> get_property MODEL_PRICING ''default'' = Own 1"
  by (simp add: getBaseModel_def pricePerMillion_def get_property_def MODEL_PRICING_def)

text \<open>
  C6: \<open>gpt-4\<close> and \<open>GPT-4-0613\<close> resolve to the same rate, 45, which differs from the
  rate 90 of \<open>gpt-4-32k\<close>. \<open>gpt-4\<close> is found by the exact lookup. \<open>GPT-4-0613\<close> is not
  (the lookup is case-sensitive); the scan over the keys finds it: the first three keys
  in enumeration order do not match its lowercase form in either direction, the fourth,
  \<open>gpt-4\<close>, is contained in it.
\<close>

theorem resolvePrice_gpt4_variants:
  "pricePerMillion (Some ''gpt-4'') = pricePerMillion (Some ''GPT-4-0613'')
   \<and> pricePerMillion (Some ''gpt-4'') \<noteq> pricePerMillion (Some ''gpt-4-32k'')
   \<and> pricePerMillion (Some ''GPT-4-0613'') \<noteq> pricePerMillion (Some ''gpt-4-32k'')
   \<and> pricePerMillion (Some ''gpt-4'') = Own 45
   \<and> pricePerMillion (Some ''gpt-4-32k'') = Own 90
   \<and> truthy (get_property MODEL_PRICING ''gpt-4'')
   \<and> getBaseModel (Some ''gpt-4'') = ''gpt-4''
   \<and> \<not> truthy (get_property MODEL_PRICING ''GPT-4-0613'')
   \<and> toLowerCase ''GPT-4-0613'' = ''gpt-4-0613''
   \<and> take 4 (Object_keys MODEL_PRICING) = [''gpt-4o'', ''gpt-4o-mini'', ''gpt-4-turbo'', ''gpt-4'']
   \<and> \<not> keyMatches ''gpt-4-0613'' ''gpt-4o''
   \<and> \<not> keyMatches ''gpt-4-0613'' ''gpt-4o-mini''
   \<and> \<not> keyMatches ''gpt-4-0613'' ''gpt-4-turbo''
   \<and> includes ''gpt-4-0613'' (toLowerCase ''gpt-4'')
   \<and> scanKeys (toLowerCase ''GPT-4-0613'') = Some ''gpt-4''
   \<and> getBaseModel (Some ''GPT-4-0613'') = ''gpt-4''"
  by (simp add: pricePerMillion_def getBaseModel_def get_property_def MODEL_PRICING_def
      Object_prototype_def scanKeys_def keyMatches_def Object_keys_def toLowerCase_def
      lower_char_def)

section \<open>Properties of the streaming merge\<close>

lemma findIndex_Some:
  "findIndex P xs = Some i \<Longrightarrow> i < length xs \<and> P (xs ! i) \<and> (\<forall>j<i. \<not> P (xs ! j))"
proof (induction xs arbitrary: i)
  case Nil
  then show ?case by simp
next
  case (Cons x xs)
  show ?case
  proof (cases "P x")
    case True
    then show ?thesis using Cons.prems by simp
  next
    case False
    then obtain i' where i': "findIndex P xs = Some i'" "i = Suc i'"
      using Cons.prems by auto
    then have "i' < length xs \<and> P (xs ! i') \<and> (\<forall>j<i'. \<not> P (xs ! j))"
      using Cons.IH by blast
    then show ?thesis using i' False by (auto simp: nth_Cons split: nat.splits)
  qed
qed

lemma findIndex_None: "findIndex P xs = None \<longleftrightarrow> (\<forall>x\<in>set xs. \<not> P x)"
  by (induction xs) auto

text \<open>
  The slot chosen in lines 102 to 107, when it holds a message, holds one of the observed
  conversation, so the test of line 143 succeeds for it. Without an in-flight message,
  or with one of another conversation, the sequence is passed on as it is.
\<close>

lemma latestMessage_same_conversation:
  assumes "latestMessage latestMessage0 latestMessage1 latestMessage2 cid = Some lm"
  shows "sameConversation (conversationId lm) cid"
proof -
  have "slotMatches (Some lm) cid"
    using assms by (auto simp: latestMessage_def split: if_splits)
  then show ?thesis by simp
qed

lemma allMessages_unchanged:
  "allMessages messages None cid = messages"
  "\<not> sameConversation (conversationId lm) cid \<Longrightarrow> allMessages messages (Some lm) cid = messages"
  by (simp_all add: allMessages_def)

lemma spread_if: "spread old new = (if new = Absent then old else new)"
  by (cases new) auto

text \<open>
  C7: when the conversation of the in-flight message is the observed one, and some
  message of the sequence has its \<open>messageId\<close>, the first such entry is replaced, in
  place, by the overlay of the in-flight message onto it, and the length of the sequence
  is unchanged; in the overlay every property present in the in-flight message wins, and
  a property it lacks keeps the entry's value. When no message has that \<open>messageId\<close>, the
  in-flight message is appended if its text is non-empty, and the sequence is unchanged
  otherwise.
\<close>

theorem allMessages_merge:
  assumes "sameConversation (conversationId lm) cid"
  shows
  "((\<exists>m\<in>set messages. messageId m = messageId lm) \<longrightarrow>
      (\<exists>i<length messages. messageId (messages ! i) = messageId lm
         \<and> (\<forall>j<i. messageId (messages ! j) \<noteq> messageId lm)
         \<and> allMessages messages (Some lm) cid = messages[i := overlay (messages ! i) lm])
      \<and> length (allMessages messages (Some lm) cid) = length messages)
   \<and> ((\<forall>m\<in>set messages. messageId m \<noteq> messageId lm) \<longrightarrow>
        allMessages messages (Some lm) cid =
          (if truthy_string (text lm) \<noteq> None then messages @ [lm] else messages))
   \<and> conversationId (overlay e lm) = conversationId lm
   \<and> messageId (overlay e lm) = messageId lm
   \<and> isCreatedByUser (overlay e lm) = isCreatedByUser lm
   \<and> model (overlay e lm) = (if model lm = Absent then model e else model lm)
   \<and> tokenCount (overlay e lm) = (if tokenCount lm = Absent then tokenCount e else tokenCount lm)
   \<and> usage (overlay e lm) = (if usage lm = Absent then usage e else usage lm)
   \<and> tokens (overlay e lm) = (if tokens lm = Absent then tokens e else tokens lm)
   \<and> text (overlay e lm) = (if text lm = Absent then text e else text lm)"
proof -
  let ?P = "\<lambda>m. messageId m = messageId lm"
  have found: "(\<exists>i<length messages. messageId (messages ! i) = messageId lm
         \<and> (\<forall>j<i. messageId (messages ! j) \<noteq> messageId lm)
         \<and> allMessages messages (Some lm) cid = messages[i := overlay (messages ! i) lm])
      \<and> length (allMessages messages (Some lm) cid) = length messages"
    if "\<exists>m\<in>set messages. messageId m = messageId lm"
  proof -
    from that have "findIndex ?P messages \<noteq> None" by (simp add: findIndex_None)
    then obtain i where i: "findIndex ?P messages = Some i" by blast
    then have p: "i < length messages \<and> ?P (messages ! i) \<and> (\<forall>j<i. \<not> ?P (messages ! j))"
      by (rule findIndex_Some)
    have eq: "allMessages messages (Some lm) cid = messages[i := overlay (messages ! i) lm]"
      using assms i by (simp add: allMessages_def)
    then have "length (allMessages messages (Some lm) cid) = length messages" by simp
    then show ?thesis using p eq by blast
  qed
  have missing: "allMessages messages (Some lm) cid =
          (if truthy_string (text lm) \<noteq> None then messages @ [lm] else messages)"
    if "\<forall>m\<in>set messages. messageId m \<noteq> messageId lm"
  proof -
    from that have "findIndex ?P messages = None" by (simp add: findIndex_None)
    then show ?thesis using assms by (simp add: allMessages_def)
  qed
  have ov: "conversationId (overlay e lm) = conversationId lm"
    "messageId (overlay e lm) = messageId lm"
    "isCreatedByUser (overlay e lm) = isCreatedByUser lm"
    "model (overlay e lm) = (if model lm = Absent then model e else model lm)"
    "tokenCount (overlay e lm) = (if tokenCount lm = Absent then tokenCount e else tokenCount lm)"
    "usage (overlay e lm) = (if usage lm = Absent then usage e else usage lm)"
    "tokens (overlay e lm) = (if tokens lm = Absent then tokens e else tokens lm)"
    "text (overlay e lm) = (if text lm = Absent then text e else text lm)"
    by (simp_all add: overlay_def spread_if)
  show ?thesis using found missing ov by blast
qed

theorem allMessages_merge_witness:
  "allMessages
     [\<lparr>conversationId = Some ''c'', messageId = ''m1'', isCreatedByUser = True,
        model = Absent, tokenCount = Val 12, usage = Absent, tokens = Absent,
        text = Val ''hello''\<rparr>,
      \<lparr>conversationId = Some ''c'', messageId = ''m2'', isCreatedByUser = False,
        model = Val ''gpt-4'', tokenCount = Absent, usage = Absent, tokens = Absent,
        text = Val ''Hi''\<rparr>]
     (Some \<lparr>conversationId = Some ''c'', messageId = ''m2'', isCreatedByUser = False,
        model = Absent, tokenCount = Absent, usage = Absent, tokens = Absent,
        text = Val ''Hi there''\<rparr>)
     (Some ''c'')
   = [\<lparr>conversationId = Some ''c'', messageId = ''m1'', isCreatedByUser = True,
        model = Absent, tokenCount = Val 12, usage = Absent, tokens = Absent,
        text = Val ''hello''\<rparr>,
      \<lparr>conversationId = Some ''c'', messageId = ''m2'', isCreatedByUser = False,
        model = Val ''gpt-4'', tokenCount = Absent, usage = Absent, tokens = Absent,
        text = Val ''Hi there''\<rparr>]
   \<and> allMessages
     [\<lparr>conversationId = Some ''c'', messageId = ''m1'', isCreatedByUser = True,
        model = Absent, tokenCount = Val 12, usage = Absent, tokens = Absent,
        text = Val ''hello''\<rparr>]
     (Some \<lparr>conversationId = Some ''c'', messageId = ''m2'', isCreatedByUser = False,
        model = Absent, tokenCount = Absent, usage = Absent, tokens = Absent,
        text = Val ''Hi''\<rparr>)
     (Some ''c'')
   = [\<lparr>conversationId = Some ''c'', messageId = ''m1'', isCreatedByUser = True,
        model = Absent, tokenCount = Val 12, usage = Absent, tokens = Absent,
        text = Val ''hello''\<rparr>,
      \<lparr>conversationId = Some ''c'', messageId = ''m2'', isCreatedByUser = False,
        model = Absent, tokenCount = Absent, usage = Absent, tokens = Absent,
        text = Val ''Hi''\<rparr>]
   \<and> allMessages
     [\<lparr>conversationId = Some ''c'', messageId = ''m1'', isCreatedByUser = True,
        model = Absent, tokenCount = Val 12, usage = Absent, tokens = Absent,
        text = Val ''hello''\<rparr>]
     (Some \<lparr>conversationId = Some ''c'', messageId = ''m2'', isCreatedByUser = False,
        model = Absent, tokenCount = Absent, usage = Absent, tokens = Absent,
        text = Val []\<rparr>)
     (Some ''c'')
   = [\<lparr>conversationId = Some ''c'', messageId = ''m1'', isCreatedByUser = True,
        model = Absent, tokenCount = Val 12, usage = Absent, tokens = Absent,
        text = Val ''hello''\<rparr>]"
proof -
  let ?m1 = "\<lparr>conversationId = Some ''c'', messageId = ''m1'', isCreatedByUser = True,
        model = Absent, tokenCount = Val 12, usage = Absent, tokens = Absent,
        text = Val ''hello''\<rparr>"
  let ?m2 = "\<lparr>conversationId = Some ''c'', messageId = ''m2'', isCreatedByUser = False,
        model = Val ''gpt-4'', tokenCount = Absent, usage = Absent, tokens = Absent,
        text = Val ''Hi''\<rparr>"
  let ?l = "\<lparr>conversationId = Some ''c'', messageId = ''m2'', isCreatedByUser = False,
        model = Absent, tokenCount = Absent, usage = Absent, tokens = Absent,
        text = Val ''Hi there''\<rparr>"
  let ?l2 = "\<lparr>conversationId = Some ''c'', messageId = ''m2'', isCreatedByUser = False,
        model = Absent, tokenCount = Absent, usage = Absent, tokens = Absent,
        text = Val ''Hi''\<rparr>"
  let ?l3 = "\<lparr>conversationId = Some ''c'', messageId = ''m2'', isCreatedByUser = False,
        model = Absent, tokenCount = Absent, usage = Absent, tokens = Absent,
        text = Val []\<rparr>"
  have c: "sameConversation (conversationId ?l) (Some ''c'')"
    "sameConversation (conversationId ?l2) (Some ''c'')"
    "sameConversation (conversationId ?l3) (Some ''c'')" by simp_all
  obtain i where i: "i < length [?m1, ?m2]" "messageId ([?m1, ?m2] ! i) = messageId ?l"
    "allMessages [?m1, ?m2] (Some ?l) (Some ''c'') = [?m1, ?m2][i := overlay ([?m1, ?m2] ! i) ?l]"
    using allMessages_merge [OF c(1), where messages = "[?m1, ?m2]"] by auto
  have "i = 1" using i(1,2) by (cases i) auto
  then have a: "allMessages [?m1, ?m2] (Some ?l) (Some ''c'') = [?m1, overlay ?m2 ?l]"
    using i(3) by simp
  have b: "allMessages [?m1] (Some ?l2) (Some ''c'') = [?m1, ?l2]"
    using allMessages_merge [OF c(2), where messages = "[?m1]"] by simp
  have d: "allMessages [?m1] (Some ?l3) (Some ''c'') = [?m1]"
    using allMessages_merge [OF c(3), where messages = "[?m1]"] by simp
  show ?thesis using a b d by (simp add: overlay_def)
qed

section \<open>The primary model\<close>

lemma findPrimaryModel_empty: "findPrimaryModel [] = ''Unknown''"
  by (simp add: findPrimaryModel_def)

lemma findPrimaryModel_example:
  "findPrimaryModel [(''A'', Num (5 / 100)), (''B'', Num (7 / 100))] = ''B''
   \<and> findPrimaryModel [(''A'', Num (7 / 100)), (''B'', Num (7 / 100))] = ''A''"
  by (simp add: findPrimaryModel_def selectPrimary_def)

text \<open>
  Over a mapping whose costs are all numbers, the selection keeps the first entry that
  exceeds the starting cost and every entry before it, if there is one.
\<close>

lemma foldl_selectPrimary:
  assumes "\<forall>e\<in>set xs. \<exists>c. snd e = Num c"
  shows "\<exists>k c. foldl selectPrimary (k0, Num c0) xs = (k, Num c) \<and> c0 \<le> c
           \<and> (\<forall>e\<in>set xs. \<not> num_gt (snd e) (Num c))
           \<and> ((k = k0 \<and> c = c0)
               \<or> (\<exists>i<length xs. xs ! i = (k, Num c) \<and> c0 < c
                     \<and> (\<forall>j<i. num_gt (Num c) (snd (xs ! j)))))"
  using assms
proof (induction xs rule: rev_induct)
  case Nil
  then show ?case by simp
next
  case (snoc x xs)
  then obtain k c where kc: "foldl selectPrimary (k0, Num c0) xs = (k, Num c)" "c0 \<le> c"
    "\<forall>e\<in>set xs. \<not> num_gt (snd e) (Num c)"
    "(k = k0 \<and> c = c0)
       \<or> (\<exists>i<length xs. xs ! i = (k, Num c) \<and> c0 < c \<and> (\<forall>j<i. num_gt (Num c) (snd (xs ! j))))"
    by auto
  obtain kx cx where x: "x = (kx, Num cx)" using snoc.prems by (cases x) auto
  have nums: "\<forall>e\<in>set xs. \<exists>d. snd e = Num d" using snoc.prems by simp
  show ?case
  proof (cases "cx > c")
    case True
    have f: "foldl selectPrimary (k0, Num c0) (xs @ [x]) = (kx, Num cx)"
      using kc(1) x True by (simp add: selectPrimary_def)
    have le: "\<forall>e\<in>set (xs @ [x]). \<not> num_gt (snd e) (Num cx)"
    proof
      fix e assume e: "e \<in> set (xs @ [x])"
      show "\<not> num_gt (snd e) (Num cx)"
      proof (cases "e = x")
        case True
        then show ?thesis using x by simp
      next
        case False
        then have ex: "e \<in> set xs" using e by simp
        then obtain d where d: "snd e = Num d" using nums by blast
        then have "\<not> d > c" using kc(3) ex by fastforce
        then show ?thesis using d True by simp
      qed
    qed
    have before: "\<forall>j<length xs. num_gt (Num cx) (snd ((xs @ [x]) ! j))"
    proof (intro allI impI)
      fix j assume j: "j < length xs"
      then have ex: "xs ! j \<in> set xs" by simp
      then obtain d where d: "snd (xs ! j) = Num d" using nums by blast
      then have "\<not> d > c" using kc(3) ex by fastforce
      then show "num_gt (Num cx) (snd ((xs @ [x]) ! j))" using d True j by (simp add: nth_append)
    qed
    have c0: "c0 < cx" using kc(2) True by simp
    have "length xs < length (xs @ [x]) \<and> (xs @ [x]) ! length xs = (kx, Num cx) \<and> c0 < cx
        \<and> (\<forall>j<length xs. num_gt (Num cx) (snd ((xs @ [x]) ! j)))"
      using x c0 before by simp
    then have dis: "(kx = k0 \<and> cx = c0)
       \<or> (\<exists>i<length (xs @ [x]). (xs @ [x]) ! i = (kx, Num cx) \<and> c0 < cx
             \<and> (\<forall>j<i. num_gt (Num cx) (snd ((xs @ [x]) ! j))))"
      by blast
    have "foldl selectPrimary (k0, Num c0) (xs @ [x]) = (kx, Num cx) \<and> c0 \<le> cx
           \<and> (\<forall>e\<in>set (xs @ [x]). \<not> num_gt (snd e) (Num cx))
           \<and> ((kx = k0 \<and> cx = c0)
               \<or> (\<exists>i<length (xs @ [x]). (xs @ [x]) ! i = (kx, Num cx) \<and> c0 < cx
                     \<and> (\<forall>j<i. num_gt (Num cx) (snd ((xs @ [x]) ! j)))))"
      using f le c0 dis by simp
    then show ?thesis by (intro exI)
  next
    case False
    have f: "foldl selectPrimary (k0, Num c0) (xs @ [x]) = (k, Num c)"
      using kc(1) x False by (simp add: selectPrimary_def)
    have le: "\<forall>e\<in>set (xs @ [x]). \<not> num_gt (snd e) (Num c)"
      using kc(3) x False by auto
    have "(k = k0 \<and> c = c0)
       \<or> (\<exists>i<length (xs @ [x]). (xs @ [x]) ! i = (k, Num c) \<and> c0 < c
             \<and> (\<forall>j<i. num_gt (Num c) (snd ((xs @ [x]) ! j))))"
    proof (rule disjE [OF kc(4)])
      assume "k = k0 \<and> c = c0"
      then show ?thesis by simp
    next
      assume "\<exists>i<length xs. xs ! i = (k, Num c) \<and> c0 < c \<and> (\<forall>j<i. num_gt (Num c) (snd (xs ! j)))"
      then obtain i where i: "i < length xs" "xs ! i = (k, Num c)" "c0 < c"
        "\<forall>j<i. num_gt (Num c) (snd (xs ! j))" by blast
      have "i < length (xs @ [x]) \<and> (xs @ [x]) ! i = (k, Num c) \<and> c0 < c
             \<and> (\<forall>j<i. num_gt (Num c) (snd ((xs @ [x]) ! j)))"
        using i by (simp add: nth_append)
      then show ?thesis by blast
    qed
    then have "foldl selectPrimary (k0, Num c0) (xs @ [x]) = (k, Num c) \<and> c0 \<le> c
           \<and> (\<forall>e\<in>set (xs @ [x]). \<not> num_gt (snd e) (Num c))
           \<and> ((k = k0 \<and> c = c0)
               \<or> (\<exists>i<length (xs @ [x]). (xs @ [x]) ! i = (k, Num c) \<and> c0 < c
                     \<and> (\<forall>j<i. num_gt (Num c) (snd ((xs @ [x]) ! j)))))"
      using f le kc(2) by simp
    then show ?thesis by (intro exI)
  qed
qed

text \<open>
  Over a non-empty mapping of positive costs the primary model is the first key, in
  enumeration order, whose cost no other cost exceeds.
\<close>

lemma findPrimaryModel_first_max:
  assumes "modelCosts \<noteq> []" and "\<forall>e\<in>set modelCosts. \<exists>c>0. snd e = Num c"
  shows "\<exists>i<length modelCosts. findPrimaryModel modelCosts = fst (modelCosts ! i)
           \<and> (\<forall>e\<in>set modelCosts. \<not> num_gt (snd e) (snd (modelCosts ! i)))
           \<and> (\<forall>j<i. num_gt (snd (modelCosts ! i)) (snd (modelCosts ! j)))"
proof -
  have nums: "\<forall>e\<in>set modelCosts. \<exists>c. snd e = Num c" using assms(2) by blast
  obtain k c where kc: "foldl selectPrimary (''Unknown'', Num 0) modelCosts = (k, Num c)"
    "\<forall>e\<in>set modelCosts. \<not> num_gt (snd e) (Num c)"
    "(k = ''Unknown'' \<and> c = 0)
       \<or> (\<exists>i<length modelCosts. modelCosts ! i = (k, Num c) \<and> 0 < c
             \<and> (\<forall>j<i. num_gt (Num c) (snd (modelCosts ! j))))"
    using foldl_selectPrimary [OF nums, of "''Unknown''" 0] by blast
  have "\<not> (k = ''Unknown'' \<and> c = 0)"
  proof
    assume z: "k = ''Unknown'' \<and> c = 0"
    obtain e where e: "e \<in> set modelCosts" using assms(1) by (cases modelCosts) auto
    then obtain d where "d > 0" "snd e = Num d" using assms(2) by blast
    then show False using kc(2) e z by fastforce
  qed
  then obtain i where i: "i < length modelCosts" "modelCosts ! i = (k, Num c)"
    "\<forall>j<i. num_gt (Num c) (snd (modelCosts ! j))"
    using kc(3) by blast
  have "findPrimaryModel modelCosts = fst (modelCosts ! i)"
    using kc(1) i(2) by (simp add: findPrimaryModel_def)
  moreover have "\<forall>e\<in>set modelCosts. \<not> num_gt (snd e) (snd (modelCosts ! i))"
    using kc(2) i(2) by simp
  moreover have "\<forall>j<i. num_gt (snd (modelCosts ! i)) (snd (modelCosts ! j))"
    using i(2,3) by simp
  ultimately show ?thesis using i(1) by blast
qed

text \<open>
  When no effective model name is one of the names inherited from \<open>Object.prototype\<close>,
  every message cost is a positive number, the loop keeps the invariant, and the primary
  model is chosen as described.
\<close>

lemma pricePerMillion_own:
  assumes "name \<notin> set Object_prototype"
  shows "\<exists>r>0. pricePerMillion (Some name) = Own r"
proof -
  have "getBaseModel (Some name) \<in> set (Object_keys MODEL_PRICING)"
    using assms by (rule getBaseModel_key)
  then obtain r where r: "r > 0" "get_property MODEL_PRICING (getBaseModel (Some name)) = Own r"
    using get_property_own by blast
  then have "pricePerMillion (Some name) = Own r"
    by (simp add: pricePerMillion_def)
  then show ?thesis using r(1) by blast
qed

lemma messageCost_positive:
  assumes "name \<notin> set Object_prototype" and "count \<noteq> 0"
  shows "\<exists>c>0. messageCost name count isEstimated = Num c"
proof -
  obtain r where r: "r > 0" "pricePerMillion (Some name) = Own r"
    using pricePerMillion_own [OF assms(1)] by blast
  define a where "a = (if isEstimated then real count * (85 / 100) else real count)"
  have "a > 0" using assms(2) by (simp add: a_def)
  then have "a / 1000000 * r > 0" using r(1) by simp
  moreover have "messageCost name count isEstimated = Num (a / 1000000 * r)"
    using r(2) by (simp add: messageCost_def a_def)
  ultimately show ?thesis by blast
qed

lemma update_values:
  "\<forall>e\<in>set al. P (snd e) \<Longrightarrow> P v \<Longrightarrow> \<forall>e\<in>set (AList.update k v al). P (snd e)"
  by (induction al) auto

lemma currentModelCost_nonneg:
  assumes "positiveCosts modelCosts"
  shows "\<exists>q\<ge>0. currentModelCost modelCosts name = Num q"
proof (cases "map_of modelCosts name")
  case None
  then show ?thesis by (simp add: currentModelCost_def)
next
  case (Some v)
  then have "(name, v) \<in> set modelCosts" by (rule map_of_SomeD)
  then obtain c where "c > 0" "v = Num c" using assms by (fastforce simp: positiveCosts_def)
  then show ?thesis using Some by (auto simp: currentModelCost_def)
qed

lemma processMessage_positiveCosts:
  assumes "positiveCosts modelCosts"
    and "\<forall>name. messageModel msgs m = Some name \<longrightarrow> name \<notin> set Object_prototype"
  shows "positiveCosts (snd (snd (processMessage msgs (cost, toks, modelCosts) m)))"
proof (cases "fst (extractTokens m) = 0 \<or> messageModel msgs m = None")
  case True
  then have "snd (snd (processMessage msgs (cost, toks, modelCosts) m)) = modelCosts"
    by (auto simp: processMessage_def Let_def split: prod.splits)
  then show ?thesis using assms(1) by simp
next
  case False
  then obtain name where name: "messageModel msgs m = Some name" "fst (extractTokens m) \<noteq> 0"
    by auto
  define v where "v = num_add (currentModelCost modelCosts name)
                 (messageCost name (fst (extractTokens m)) (snd (extractTokens m)))"
  have eq: "snd (snd (processMessage msgs (cost, toks, modelCosts) m)) =
            AList.update name v modelCosts"
    using name by (auto simp: processMessage_def Let_def v_def split: prod.splits)
  obtain c where c: "c > 0"
    "messageCost name (fst (extractTokens m)) (snd (extractTokens m)) = Num c"
    using messageCost_positive name assms(2) by blast
  obtain q where q: "q \<ge> 0" "currentModelCost modelCosts name = Num q"
    using currentModelCost_nonneg [OF assms(1)] by blast
  have v: "\<exists>d>0. v = Num d" using c q by (simp add: v_def)
  have "\<forall>e\<in>set (AList.update name v modelCosts). \<exists>d>0. snd e = Num d"
    using assms(1) v by (intro update_values) (simp_all add: positiveCosts_def)
  moreover have "distinct (map fst (AList.update name v modelCosts))"
    using assms(1) by (simp add: positiveCosts_def AList.distinct_update)
  ultimately show ?thesis using eq by (simp add: positiveCosts_def)
qed

lemma foldl_processMessage_positiveCosts:
  assumes "\<forall>m\<in>set ms. \<forall>name. messageModel msgs m = Some name \<longrightarrow> name \<notin> set Object_prototype"
    and "positiveCosts (snd (snd st))"
  shows "positiveCosts (snd (snd (foldl (processMessage msgs) st ms)))"
  using assms
proof (induction ms arbitrary: st)
  case Nil
  then show ?case by simp
next
  case (Cons m ms)
  obtain cost toks modelCosts where st: "st = (cost, toks, modelCosts)" by (cases st) auto
  have "positiveCosts (snd (snd (processMessage msgs st m)))"
    using Cons.prems st processMessage_positiveCosts by simp
  then show ?case using Cons.IH Cons.prems(1) by simp
qed

lemma aggregateLoop_primaryModel:
  assumes "\<forall>m\<in>set msgs. \<forall>name. messageModel msgs m = Some name \<longrightarrow> name \<notin> set Object_prototype"
    and "aggregateLoop msgs = (cost, toks, modelCosts)"
  shows "distinct (map fst modelCosts)"
    and "modelCosts = [] \<Longrightarrow> findPrimaryModel modelCosts = ''Unknown''"
    and "modelCosts \<noteq> [] \<Longrightarrow>
           \<exists>i<length modelCosts. findPrimaryModel modelCosts = fst (modelCosts ! i)
             \<and> (\<forall>e\<in>set modelCosts. \<not> num_gt (snd e) (snd (modelCosts ! i)))
             \<and> (\<forall>j<i. num_gt (snd (modelCosts ! i)) (snd (modelCosts ! j)))"
proof -
  have "positiveCosts (snd (snd (foldl (processMessage msgs) (Num 0, 0, []) msgs)))"
    using assms(1) by (intro foldl_processMessage_positiveCosts) (simp_all add: positiveCosts_def)
  then have p: "positiveCosts modelCosts" using assms(2) by (simp add: aggregateLoop_def)
  then show "distinct (map fst modelCosts)" by (simp add: positiveCosts_def)
  show "modelCosts = [] \<Longrightarrow> findPrimaryModel modelCosts = ''Unknown''"
    by (simp add: findPrimaryModel_def)
  show "modelCosts \<noteq> [] \<Longrightarrow>
           \<exists>i<length modelCosts. findPrimaryModel modelCosts = fst (modelCosts ! i)
             \<and> (\<forall>e\<in>set modelCosts. \<not> num_gt (snd e) (snd (modelCosts ! i)))
             \<and> (\<forall>j<i. num_gt (snd (modelCosts ! i)) (snd (modelCosts ! j)))"
    using p by (intro findPrimaryModel_first_max) (simp_all add: positiveCosts_def)
qed

text \<open>
  C8: the claim is that after the loop the primary model is the key of the greatest
  accrued cost, and \<open>Unknown\<close> for an empty mapping. For a single message with
  \<open>tokenCount = 1000\<close> and the model name \<open>constructor\<close> the mapping after the loop is
  not empty, it holds the bucket \<open>constructor\<close> with the cost \<open>NaN\<close>, and the primary
  model is \<open>Unknown\<close>, which is not a key of the mapping.
\<close>

theorem primaryModel_unknown_for_inherited_name:
  "aggregateLoop
     [\<lparr>conversationId = Some ''c'', messageId = ''a1'', isCreatedByUser = False,
        model = Val ''constructor'', tokenCount = Val 1000, usage = Absent, tokens = Absent,
        text = Absent\<rparr>] = (NaN, 1000, [(''constructor'', NaN)])
   \<and> costData 7
     [\<lparr>conversationId = Some ''c'', messageId = ''a1'', isCreatedByUser = False,
        model = Val ''constructor'', tokenCount = Val 1000, usage = Absent, tokens = Absent,
        text = Absent\<rparr>] =
       Some \<lparr>totalCost = Some ''$NaN'', totalCostRaw = NaN, primaryModel = ''Unknown'',
             totalTokens = 1000, lastUpdated = 7\<rparr>"
proof -
  have p: "pricePerMillion (Some ''constructor'') = Inherited"
    by (simp add: pricePerMillion_def getBaseModel_def get_property_def MODEL_PRICING_def
        Object_prototype_def)
  have loop: "aggregateLoop
     [\<lparr>conversationId = Some ''c'', messageId = ''a1'', isCreatedByUser = False,
        model = Val ''constructor'', tokenCount = Val 1000, usage = Absent, tokens = Absent,
        text = Absent\<rparr>] = (NaN, 1000, [(''constructor'', NaN)])"
    by (simp add: aggregateLoop_def processMessage_def extractTokens_def messageModel_def
        messageCost_def p currentModelCost_def Let_def)
  show ?thesis unfolding costData_def loop
    by (simp add: formatCost_def findPrimaryModel_def selectPrimary_def)
qed

section \<open>Totality\<close>



section \<open>Keys returned by the resolver\<close>

text \<open>
  C10: the claim is that \<open>getBaseModel\<close> always returns a key of the pricing table. For
  the identifier \<open>constructor\<close> it does not: the exact lookup \<open>MODEL_PRICING[model]\<close>
  finds the property inherited from \<open>Object.prototype\<close>, which is truthy, and the
  identifier itself is returned. It is not a key of the table; the price read for it is a
  function, and the cost computed from it is \<open>NaN\<close>.
\<close>

theorem getBaseModel_inherited_property:
  "getBaseModel (Some ''constructor'') = ''constructor''
   \<and> ''constructor'' \<notin> set (Object_keys MODEL_PRICING)
   \<and> pricePerMillion (Some ''constructor'') = Inherited
   \<and> messageCost ''constructor'' 1000 False = NaN"
  by (simp add: messageCost_def pricePerMillion_def getBaseModel_def get_property_def
      MODEL_PRICING_def Object_prototype_def Object_keys_def)

end
